theory Spec2Isabelle
  imports Main "HOL-Library.Word"
begin

section \<open>Values, errors and outcomes\<close>

text \<open>
  The loader of \<^verbatim>\<open>pytorch/pytorch.go\<close> works on values of Go's empty interface
  that the object-graph decoder hands back. The dynamic types the loader tests for are
  the constructors below; every other dynamic type (bool, float64, a dictionary, ...)
  is \<open>VOther\<close>.
\<close>

datatype storage_kind =
  FloatStorageClass | HalfStorageClass | DoubleStorageClass
  | CharStorageClass | ShortStorageClass | IntStorageClass
  | LongStorageClass | ByteStorageClass | BoolStorageClass

datatype pyobj =
  VNil                          \<comment> \<open>the nil interface value\<close>
  | VString string              \<comment> \<open>\<^verbatim>\<open>string\<close>\<close>
  | VInt int                    \<comment> \<open>\<^verbatim>\<open>int\<close>; the loader only compares it and passes it on\<close>
  | VBigInt int                 \<comment> \<open>\<^verbatim>\<open>*big.Int\<close>\<close>
  | VTuple "pyobj list"         \<comment> \<open>\<^verbatim>\<open>*types.Tuple\<close>\<close>
  | VList "pyobj list"          \<comment> \<open>\<^verbatim>\<open>*types.List\<close>\<close>
  | VSlice "pyobj list"         \<comment> \<open>\<^verbatim>\<open>[]interface{}\<close>\<close>
  | VStorageClass storage_kind  \<comment> \<open>a \<^verbatim>\<open>StorageClassInterface\<close> value\<close>
  | VRebuildTensorV2            \<comment> \<open>\<^verbatim>\<open>*RebuildTensorV2\<close>\<close>
  | VStorage nat                \<comment> \<open>a \<^verbatim>\<open>StorageInterface\<close> value: the address of a storage\<close>
  | VOther nat                  \<comment> \<open>a value of any other dynamic type\<close>

datatype error =
  ErrInvalidMagicNumber
  | ErrInvalidProtocolVersion
  | Errorf string               \<comment> \<open>\<^verbatim>\<open>fmt.Errorf\<close>, with the formatted message\<close>
  | io_EOF
  | tar_ErrHeader
  | ExternalError nat           \<comment> \<open>any other error value of a collaborator\<close>

text \<open>
  A Go call returns normally with a value, returns a non-nil error, or panics.
\<close>

datatype 'a result = Ok 'a | Fail error | Panic string

section \<open>Storages and the registry\<close>

text \<open>
  Modelled from the spec: the declarations of \<^verbatim>\<open>StorageInterface\<close> and
  \<^verbatim>\<open>StorageClassInterface\<close> are not in the source file. A Storage is a typed buffer
  with a fixed element count and a location string, whose bytes are filled in later;
  \<^verbatim>\<open>dataType.New(size, location)\<close> allocates a new, unfilled Storage of the token's kind.
\<close>

type_synonym byte = "8 word"

record storage =
  st_kind :: storage_kind
  st_count :: int
  st_location :: string
  st_data :: "byte list option"

definition New :: "storage_kind \<Rightarrow> int \<Rightarrow> string \<Rightarrow> storage" where
  "New dataType n location =
     \<lparr>st_kind = dataType, st_count = n, st_location = location, st_data = None\<rparr>"

text \<open>
  Storages are Go objects with identity. The heap is the list of the storages
  allocated so far; the address of a storage is its index, and an allocation appends.
  \<^verbatim>\<open>deserializedObjects\<close> is the map of line 75, from root key to storage (address).
\<close>

record pstate =
  deserializedObjects :: "string \<rightharpoonup> nat"
  heap :: "storage list"

definition emptyState :: pstate where
  "emptyState = \<lparr>deserializedObjects = Map.empty, heap = []\<rparr>"

section \<open>The persistent-reference resolver\<close>

text \<open>Type assertions \<^verbatim>\<open>v, ok := x.(T)\<close>: \<open>None\<close> is \<^verbatim>\<open>ok == false\<close>.\<close>

fun asString :: "pyobj \<Rightarrow> string option" where
  "asString (VString s) = Some s"
| "asString _ = None"

fun asInt :: "pyobj \<Rightarrow> int option" where
  "asInt (VInt n) = Some n"
| "asInt _ = None"

fun asStorageClass :: "pyobj \<Rightarrow> storage_kind option" where
  "asStorageClass (VStorageClass c) = Some c"
| "asStorageClass _ = None"

text \<open>Lines 103 to 107: look the root key up, allocate and register when it is absent.\<close>

definition lookupOrAllocate ::
  "pstate \<Rightarrow> storage_kind \<Rightarrow> string \<Rightarrow> string \<Rightarrow> int \<Rightarrow> nat \<times> pstate" where
  "lookupOrAllocate st dataType rootKey location n =
     (case deserializedObjects st rootKey of
        Some a \<Rightarrow> (a, st)
      | None \<Rightarrow>
          (length (heap st),
           \<lparr>deserializedObjects = (deserializedObjects st)(rootKey \<mapsto> length (heap st)),
            heap = heap st @ [New dataType n location]\<rparr>))"

text \<open>Lines 108 to 124: the switch on the dynamic type of the view metadata.\<close>

fun viewMetadataSwitch :: "pyobj \<Rightarrow> nat \<Rightarrow> pyobj result" where
  "viewMetadataSwitch VNil a = Ok (VStorage a)"
| "viewMetadataSwitch (VSlice vm) a =
     (if length vm \<noteq> 3 then Fail (Errorf ''PersistentLoad: unexpected view metadata length'')
      else Panic ''viewMetadata not implemented'')"
| "viewMetadataSwitch _ a = Fail (Errorf ''PersistentLoad: unexpected view metadata type'')"

text \<open>Lines 90 to 124: the \<^verbatim>\<open>"storage"\<close> case.\<close>

definition storageCase :: "pstate \<Rightarrow> pyobj list \<Rightarrow> pyobj result \<times> pstate" where
  "storageCase st tuple =
     (if length tuple \<noteq> 6
      then (Fail (Errorf ''PersistentLoad: unexpected storage data length''), st)
      else
        (case (asStorageClass (tuple ! 1), asString (tuple ! 2),
               asString (tuple ! 3), asInt (tuple ! 4)) of
           (Some dataType, Some rootKey, Some location, Some n) \<Rightarrow>
             (let (a, st') = lookupOrAllocate st dataType rootKey location n
              in (viewMetadataSwitch (tuple ! 5) a, st'))
         | _ \<Rightarrow> (Fail (Errorf ''PersistentLoad: unexpected data types''), st)))"

text \<open>Lines 79 to 135: the closure installed as \<^verbatim>\<open>u.PersistentLoad\<close>.\<close>

definition persistentLoad :: "pstate \<Rightarrow> pyobj \<Rightarrow> pyobj result \<times> pstate" where
  "persistentLoad st savedId =
     (case savedId of
        VTuple tuple \<Rightarrow>
          (if length tuple = 0
           then (Fail (Errorf ''PersistentLoad: non-empty tuple espected''), st)
           else
             (case asString (tuple ! 0) of
                None \<Rightarrow> (Fail (Errorf ''PersistentLoad: cannot get typename''), st)
              | Some typename \<Rightarrow>
                  if typename = ''storage'' then storageCase st tuple
                  else if typename = ''module''
                  then (Panic ''PersistentLoad module not implemented'', st)
                  else (Fail (Errorf (''Unexpected saved ID type: '' @ typename)), st)))
      | _ \<Rightarrow> (Fail (Errorf ''PersistentLoad: non-empty tuple espected''), st))"

section \<open>Collaborators outside the source file\<close>

text \<open>
  A file handle is the file's bytes and the current position. The loader itself only
  passes the handle on and rewinds it; every read is done by a collaborator.
\<close>

record osFile =
  f_content :: "byte list"
  f_pos :: nat

text \<open>
  The object-graph decoder with hooks installed (\<^verbatim>\<open>u.FindClass\<close>,
  \<^verbatim>\<open>u.PersistentLoad\<close>) is a collaborator that calls back into the loader. One call
  of \<^verbatim>\<open>u.Load()\<close> is a tree: the decoder either returns (a value, an error of its
  own or a panic, leaving the file at some position), or reaches a persistent-reference
  marker with the file at some position, hands a value to \<^verbatim>\<open>PersistentLoad\<close> and goes on
  with the resolved reference. A decoder returns the callback's error to its caller
  when the callback fails; a panic of the callback unwinds through it.
\<close>

datatype dectree =
  Return "pyobj result" osFile
  | CallPersistentLoad osFile pyobj "pyobj \<Rightarrow> dectree"

text \<open>
  The collaborators of the loader, none of which is in the source file: the zip probe
  of \<^verbatim>\<open>archive/zip\<close>, \<^verbatim>\<open>os.Open\<close>, the first \<^verbatim>\<open>Next\<close> of a tar reader,
  \<^verbatim>\<open>Seek\<close>, the decoder without and with hooks, and \<^verbatim>\<open>SetFromFile\<close> of a storage.
\<close>

record env =
  zipOpenReaderOk :: "string \<Rightarrow> bool"
    \<comment> \<open>\<^verbatim>\<open>zip.OpenReader(filename)\<close> returned a nil error\<close>
  osOpen :: "string \<Rightarrow> osFile result"
  tarNext :: "osFile \<Rightarrow> error option \<times> osFile"
    \<comment> \<open>the error of \<^verbatim>\<open>tr.Next()\<close> (\<open>None\<close> is nil) and the file afterwards\<close>
  seekStartErr :: "osFile \<Rightarrow> error option"
    \<comment> \<open>the error of \<^verbatim>\<open>f.Seek(0, io.SeekStart)\<close>\<close>
  unpicklerLoad :: "osFile \<Rightarrow> pyobj result \<times> osFile"
    \<comment> \<open>\<^verbatim>\<open>gopickle.NewUnpickler(r).Load()\<close> with no hook installed\<close>
  unpicklerLoadHooked :: "(string \<Rightarrow> string \<Rightarrow> pyobj result) \<Rightarrow> osFile \<Rightarrow> dectree"
    \<comment> \<open>\<^verbatim>\<open>u.Load()\<close> with \<^verbatim>\<open>FindClass\<close> set to the argument and \<^verbatim>\<open>PersistentLoad\<close> as the tree's callback\<close>
  setFromFile :: "storage \<Rightarrow> osFile \<Rightarrow> unit result \<times> storage \<times> osFile"
    \<comment> \<open>\<^verbatim>\<open>storageObj.SetFromFile(f)\<close>: the error, the storage and the file afterwards\<close>

section \<open>Running the decoder against the resolver\<close>

text \<open>
  \<^verbatim>\<open>u.Load()\<close> of line 136, with the closure of lines 79 to 135 as callback. The
  registry and the heap are threaded through the calls. The last component lists the
  resolver calls made, in order: the argument, the state before the call, the outcome
  and the state after the call.
\<close>

type_synonym call = "pyobj \<times> pstate \<times> pyobj result \<times> pstate"

primrec runLoad ::
  "dectree \<Rightarrow> pstate \<Rightarrow> pyobj result \<times> osFile \<times> pstate \<times> call list" where
  "runLoad (Return r f) = (\<lambda>st. (r, f, st, []))"
| "runLoad (CallPersistentLoad f savedId k) =
     (\<lambda>st. case persistentLoad st savedId of
        (Ok v, st') \<Rightarrow>
          (case runLoad (k v) st' of
             (r, f', st'', calls) \<Rightarrow> (r, f', st'', (savedId, st, Ok v, st') # calls))
      | (Fail err, st') \<Rightarrow> (Fail err, f, st', [(savedId, st, Fail err, st')])
      | (Panic m, st') \<Rightarrow> (Panic m, f, st', [(savedId, st, Panic m, st')]))"

section \<open>The header\<close>

definition hexMagicNumber :: string where
  "hexMagicNumber = ''1950a86a20f9469cfc6c''"

definition protocolVersion :: int where
  "protocolVersion = 1001"

text \<open>
  \<^verbatim>\<open>n.Text(16)\<close> of \<^verbatim>\<open>math/big\<close>: the digits of the absolute value in base 16, in
  lower case and without leading zeros, after a minus sign when the number is negative.
\<close>

definition hexDigit :: "nat \<Rightarrow> char" where
  "hexDigit d = ''0123456789abcdef'' ! d"

fun natHex :: "nat \<Rightarrow> string" where
  "natHex n = (if n < 16 then [hexDigit n] else natHex (n div 16) @ [hexDigit (n mod 16)])"

declare natHex.simps [simp del]

definition bigIntText16 :: "int \<Rightarrow> string" where
  "bigIntText16 n = (if n < 0 then CHR ''-'' # natHex (nat (- n)) else natHex (nat n))"

text \<open>Lines 202 to 205.\<close>

definition unpickle :: "env \<Rightarrow> osFile \<Rightarrow> pyobj result \<times> osFile" where
  "unpickle env r = unpicklerLoad env r"

text \<open>Lines 180 to 189.\<close>

definition readAndCheckMagicNumber :: "env \<Rightarrow> osFile \<Rightarrow> unit result \<times> osFile" where
  "readAndCheckMagicNumber env r =
     (case unpickle env r of
        (Fail err, r') \<Rightarrow> (Fail err, r')
      | (Panic m, r') \<Rightarrow> (Panic m, r')
      | (Ok obj, r') \<Rightarrow>
          (case obj of
             VBigInt n \<Rightarrow>
               if bigIntText16 n \<noteq> hexMagicNumber then (Fail ErrInvalidMagicNumber, r')
               else (Ok (), r')
           | _ \<Rightarrow> (Fail ErrInvalidMagicNumber, r')))"

text \<open>Lines 191 to 200.\<close>

definition readAndChecProtocolVersion :: "env \<Rightarrow> osFile \<Rightarrow> unit result \<times> osFile" where
  "readAndChecProtocolVersion env r =
     (case unpickle env r of
        (Fail err, r') \<Rightarrow> (Fail err, r')
      | (Panic m, r') \<Rightarrow> (Panic m, r')
      | (Ok obj, r') \<Rightarrow>
          (case obj of
             VInt n \<Rightarrow>
               if n \<noteq> protocolVersion then (Fail ErrInvalidProtocolVersion, r')
               else (Ok (), r')
           | _ \<Rightarrow> (Fail ErrInvalidProtocolVersion, r')))"

section \<open>Class lookup, key order and materialization\<close>

text \<open>Lines 216 to 241.\<close>

definition pickleFindClass :: "string \<Rightarrow> string \<Rightarrow> pyobj result" where
  "pickleFindClass modul name =
     (let full = modul @ ''.'' @ name in
      if full = ''torch._utils._rebuild_tensor_v2'' then Ok VRebuildTensorV2
      else if full = ''torch.FloatStorage'' then Ok (VStorageClass FloatStorageClass)
      else if full = ''torch.HalfStorage'' then Ok (VStorageClass HalfStorageClass)
      else if full = ''torch.DoubleStorage'' then Ok (VStorageClass DoubleStorageClass)
      else if full = ''torch.CharStorage'' then Ok (VStorageClass CharStorageClass)
      else if full = ''torch.ShortStorage'' then Ok (VStorageClass ShortStorageClass)
      else if full = ''torch.IntStorage'' then Ok (VStorageClass IntStorageClass)
      else if full = ''torch.LongStorage'' then Ok (VStorageClass LongStorageClass)
      else if full = ''torch.ByteStorage'' then Ok (VStorageClass ByteStorageClass)
      else if full = ''torch.BoolStorage'' then Ok (VStorageClass BoolStorageClass)
      else Fail (Errorf (''class no found: '' @ modul @ '' '' @ name)))"

text \<open>Lines 164 to 178; the loop of lines 170 to 176 is \<open>stringKeys\<close>.\<close>

fun stringKeys :: "pyobj list \<Rightarrow> string list result" where
  "stringKeys [] = Ok []"
| "stringKeys (rawKey # rest) =
     (case asString rawKey of
        None \<Rightarrow> Fail (Errorf ''invalid storage key'')
      | Some key \<Rightarrow>
          (case stringKeys rest of
             Ok keys \<Rightarrow> Ok (key # keys)
           | Fail err \<Rightarrow> Fail err
           | Panic m \<Rightarrow> Panic m))"

definition makeStorageKeys :: "pyobj \<Rightarrow> string list result" where
  "makeStorageKeys obj =
     (case obj of
        VList list \<Rightarrow> stringKeys list
      | _ \<Rightarrow> Fail (Errorf ''invalid storage keys data''))"

text \<open>
  Lines 150 to 159: the loop over the storage keys. It returns the error (or nil), the
  heap and the file as the loop leaves them.
\<close>

fun setStoragesFromFile ::
  "env \<Rightarrow> (string \<rightharpoonup> nat) \<Rightarrow> string list \<Rightarrow> storage list \<Rightarrow> osFile
     \<Rightarrow> unit result \<times> storage list \<times> osFile" where
  "setStoragesFromFile env objs [] h f = (Ok (), h, f)"
| "setStoragesFromFile env objs (key # keys) h f =
     (case objs key of
        None \<Rightarrow>
          (Fail (Errorf (''storage object not found for key '' @ [CHR 0x27] @ key @ [CHR 0x27])),
           h, f)
      | Some a \<Rightarrow>
          (case setFromFile env (h ! a) f of
             (Ok u, s', f') \<Rightarrow> setStoragesFromFile env objs keys (h[a := s']) f'
           | (Fail err, s', f') \<Rightarrow> (Fail err, h[a := s'], f')
           | (Panic m, s', f') \<Rightarrow> (Panic m, h[a := s'], f')))"

section \<open>The legacy loader\<close>

text \<open>
  Lines 75 to 161 of \<^verbatim>\<open>loadLegacyNoTar\<close>: the object graph, the key order and the
  materialization. The result is what the function returns, the file and the heap as
  it leaves them.
\<close>

definition loadObjectGraph :: "env \<Rightarrow> osFile \<Rightarrow> pyobj result \<times> osFile \<times> storage list" where
  "loadObjectGraph env f =
     (case runLoad (unpicklerLoadHooked env pickleFindClass f) emptyState of
        (Fail err, f1, st, calls) \<Rightarrow> (Fail err, f1, heap st)
      | (Panic m, f1, st, calls) \<Rightarrow> (Panic m, f1, heap st)
      | (Ok result, f1, st, calls) \<Rightarrow>
          (case unpickle env f1 of
             (Fail err, f2) \<Rightarrow> (Fail err, f2, heap st)
           | (Panic m, f2) \<Rightarrow> (Panic m, f2, heap st)
           | (Ok rawStorageKeys, f2) \<Rightarrow>
               (case makeStorageKeys rawStorageKeys of
                  Fail err \<Rightarrow> (Fail err, f2, heap st)
                | Panic m \<Rightarrow> (Panic m, f2, heap st)
                | Ok storageKeys \<Rightarrow>
                    (case setStoragesFromFile env (deserializedObjects st) storageKeys
                            (heap st) f2 of
                       (Ok u, h, f3) \<Rightarrow> (Ok result, f3, h)
                     | (Fail err, h, f3) \<Rightarrow> (Fail err, f3, h)
                     | (Panic m, h, f3) \<Rightarrow> (Panic m, f3, h)))))"

text \<open>Lines 64 to 162.\<close>

definition loadLegacyNoTar :: "env \<Rightarrow> osFile \<Rightarrow> pyobj result \<times> osFile \<times> storage list" where
  "loadLegacyNoTar env f =
     (case readAndCheckMagicNumber env f of
        (Fail err, f1) \<Rightarrow> (Fail err, f1, [])
      | (Panic m, f1) \<Rightarrow> (Panic m, f1, [])
      | (Ok u, f1) \<Rightarrow>
          (case readAndChecProtocolVersion env f1 of
             (Fail err, f2) \<Rightarrow> (Fail err, f2, [])
           | (Panic m, f2) \<Rightarrow> (Panic m, f2, [])
           | (Ok u', f2) \<Rightarrow>
               (case unpickle env f2 of
                  (Fail err, f3) \<Rightarrow> (Fail err, f3, [])
                | (Panic m, f3) \<Rightarrow> (Panic m, f3, [])
                | (Ok sysInfo, f3) \<Rightarrow> loadObjectGraph env f3)))"

section \<open>The entry point\<close>

text \<open>Lines 207 to 214.\<close>

definition isZipFile :: "env \<Rightarrow> string \<Rightarrow> bool" where
  "isZipFile env filename = (if \<not> zipOpenReaderOk env filename then False else True)"

text \<open>Lines 32 to 35.\<close>

definition loadZipFile :: "env \<Rightarrow> string \<Rightarrow> pyobj result \<times> storage list" where
  "loadZipFile env filename = (Panic ''loadZipFile not implemented'', [])"

text \<open>
  Lines 37 to 62. Every branch of the switch returns, but the one for \<^verbatim>\<open>io.EOF\<close>,
  whose \<^verbatim>\<open>break\<close> leaves the switch and reaches the panic below it; the default branch
  returns \<^verbatim>\<open>nil, err\<close> also when the error is nil.
\<close>

definition loadLegacyFile :: "env \<Rightarrow> string \<Rightarrow> pyobj result \<times> storage list" where
  "loadLegacyFile env filename =
     (case osOpen env filename of
        Fail err \<Rightarrow> (Fail err, [])
      | Panic m \<Rightarrow> (Panic m, [])
      | Ok f \<Rightarrow>
          (case tarNext env f of
             (err, f1) \<Rightarrow>
               if err = Some io_EOF then (Panic ''legacy load from tar not implemented'', [])
               else if err = Some tar_ErrHeader then
                 (case seekStartErr env f1 of
                    Some err' \<Rightarrow> (Fail err', [])
                  | None \<Rightarrow>
                      (case loadLegacyNoTar env (f1\<lparr>f_pos := 0\<rparr>) of
                         (r, f2, h) \<Rightarrow> (r, h)))
               else
                 (case err of
                    None \<Rightarrow> (Ok VNil, [])
                  | Some err' \<Rightarrow> (Fail err', []))))"

text \<open>Lines 25 to 30.\<close>

definition Load :: "env \<Rightarrow> string \<Rightarrow> pyobj result \<times> storage list" where
  "Load env filename =
     (if \<not> isZipFile env filename then loadLegacyFile env filename
      else loadZipFile env filename)"

section \<open>Notions used to state the properties\<close>

text \<open>
  The root key of a storage record: the third element of a tuple of six elements whose
  first element is the string \<^verbatim>\<open>"storage"\<close>, when it is a string.
\<close>

definition storageRootKey :: "pyobj \<Rightarrow> string option" where
  "storageRootKey savedId =
     (case savedId of
        VTuple tuple \<Rightarrow>
          if length tuple = 6 \<and> tuple ! 0 = VString ''storage'' then asString (tuple ! 2)
          else None
      | _ \<Rightarrow> None)"

text \<open>
  The registry and the heap fit together: distinct root keys have distinct storages,
  and the registered storages are exactly the allocated ones.
\<close>

definition regInv :: "pstate \<Rightarrow> bool" where
  "regInv st \<longleftrightarrow>
     finite (dom (deserializedObjects st)) \<and>
     inj_on (deserializedObjects st) (dom (deserializedObjects st)) \<and>
     ran (deserializedObjects st) = {..<length (heap st)}"

section \<open>A storage reader and a scripted environment for concrete runs\<close>

text \<open>
  Modelled from the spec: \<^verbatim>\<open>SetFromFile\<close> of a storage is not in the source file. It
  reads exactly element count times element size bytes from the current file position
  into the storage's buffer and advances the position by that many bytes; a file with
  fewer bytes left is an I/O error.
\<close>

fun elementSize :: "storage_kind \<Rightarrow> nat" where
  "elementSize FloatStorageClass = 4"
| "elementSize HalfStorageClass = 2"
| "elementSize DoubleStorageClass = 8"
| "elementSize CharStorageClass = 1"
| "elementSize ShortStorageClass = 2"
| "elementSize IntStorageClass = 4"
| "elementSize LongStorageClass = 8"
| "elementSize ByteStorageClass = 1"
| "elementSize BoolStorageClass = 1"

definition SetFromFile :: "storage \<Rightarrow> osFile \<Rightarrow> unit result \<times> storage \<times> osFile" where
  "SetFromFile s f =
     (let n = nat (st_count s) * elementSize (st_kind s) in
      if f_pos f + n \<le> length (f_content f)
      then (Ok (), s\<lparr>st_data := Some (take n (drop (f_pos f) (f_content f)))\<rparr>,
            f\<lparr>f_pos := f_pos f + n\<rparr>)
      else (Fail io_EOF, s, f))"

text \<open>
  An environment for concrete runs. Every file has the given bytes; the zip probe and
  the tar reader answer as given; an encoded value is one byte, the index of the value
  in a table; the decoder with hooks consumes one byte and then behaves as the given
  tree.
\<close>

definition scriptedEnv ::
  "bool \<Rightarrow> error option \<Rightarrow> pyobj list \<Rightarrow> (osFile \<Rightarrow> dectree) \<Rightarrow> byte list \<Rightarrow> env" where
  "scriptedEnv isZip tarErr table graph bytes =
     \<lparr>zipOpenReaderOk = (\<lambda>filename. isZip),
      osOpen = (\<lambda>filename. Ok \<lparr>f_content = bytes, f_pos = 0\<rparr>),
      tarNext = (\<lambda>f. (tarErr, f\<lparr>f_pos := min 512 (length (f_content f))\<rparr>)),
      seekStartErr = (\<lambda>f. None),
      unpicklerLoad = (\<lambda>f.
        if f_pos f < length (f_content f)
        then (if unat (f_content f ! f_pos f) < length table
              then Ok (table ! unat (f_content f ! f_pos f))
              else Fail (ExternalError 0),
              f\<lparr>f_pos := Suc (f_pos f)\<rparr>)
        else (Fail io_EOF, f)),
      unpicklerLoadHooked = (\<lambda>findClass f. graph (f\<lparr>f_pos := Suc (f_pos f)\<rparr>)),
      setFromFile = SetFromFile\<rparr>"

text \<open>The value of a string of hexadecimal digits, to invert \<open>natHex\<close>.\<close>

definition hexDigitValue :: "char \<Rightarrow> nat" where
  "hexDigitValue c =
     (if of_char c < (58::nat) then of_char c - 48 else of_char c - 87)"

definition parseHex :: "string \<Rightarrow> nat" where
  "parseHex s = foldl (\<lambda>acc c. 16 * acc + hexDigitValue c) 0 s"

text \<open>Concrete inputs: a storage record, and a decoder run that refers twice to one root key.\<close>

definition exampleFile :: osFile where
  "exampleFile = \<lparr>f_content = [], f_pos = 0\<rparr>"

definition exampleRecord :: "string \<Rightarrow> int \<Rightarrow> pyobj \<Rightarrow> pyobj" where
  "exampleRecord rootKey n viewMetadata =
     VTuple [VString ''storage'', VStorageClass FloatStorageClass, VString rootKey,
             VString ''cpu'', VInt n, viewMetadata]"

definition twoReferences :: dectree where
  "twoReferences =
     CallPersistentLoad exampleFile (exampleRecord ''0'' 10 VNil)
       (\<lambda>v. CallPersistentLoad exampleFile (exampleRecord ''0'' 10 VNil)
          (\<lambda>w. Return (Ok (VTuple [v, w])) exampleFile))"

definition oneStorage :: pstate where
  "oneStorage =
     \<lparr>deserializedObjects = [''0'' \<mapsto> 0], heap = [New FloatStorageClass 10 ''cpu'']\<rparr>"

text \<open>
  A decoder run that meets the same persistent reference twice and returns the pair of
  the two resolved references, leaving the file where it is given.
\<close>

definition sharedGraph :: "pyobj \<Rightarrow> osFile \<Rightarrow> dectree" where
  "sharedGraph savedId f =
     CallPersistentLoad f savedId
       (\<lambda>v. CallPersistentLoad f savedId (\<lambda>w. Return (Ok (VTuple [v, w])) f))"

text \<open>
  A legacy file for concrete runs, and the environment that serves it. The file is
  five one-byte values (the magic number, the protocol version, the system info, the
  object graph and the storage keys) followed by the payload of the storages;
  \<open>exampleAt payload i\<close> is the file at position \<open>i\<close>.
\<close>

definition exampleAt :: "byte list \<Rightarrow> nat \<Rightarrow> osFile" where
  "exampleAt payload i = \<lparr>f_content = [0, 1, 2, 0, 3] @ payload, f_pos = i\<rparr>"

definition legacyExample :: "pyobj \<Rightarrow> pyobj \<Rightarrow> pyobj \<Rightarrow> pyobj \<Rightarrow> byte list \<Rightarrow> env" where
  "legacyExample magic version savedId storageKeys payload =
     scriptedEnv False (Some tar_ErrHeader) [magic, version, VNil, storageKeys]
       (sharedGraph savedId) ([0, 1, 2, 0, 3] @ payload)"

definition validMagic :: pyobj where
  "validMagic = VBigInt 0x1950a86a20f9469cfc6c"


section \<open>The magic number in base 16\<close>

lemma hexDigitValue_hexDigit: "d < 16 \<Longrightarrow> hexDigitValue (hexDigit d) = d"
proof -
  assume "d < 16"
  then have "d = 0 \<or> d = 1 \<or> d = 2 \<or> d = 3 \<or> d = 4 \<or> d = 5 \<or> d = 6 \<or> d = 7 \<or> d = 8
      \<or> d = 9 \<or> d = 10 \<or> d = 11 \<or> d = 12 \<or> d = 13 \<or> d = 14 \<or> d = 15"
    by arith
  then show ?thesis
    by (elim disjE) (simp_all add: hexDigitValue_def hexDigit_def)
qed

lemma parseHex_snoc: "parseHex (s @ [c]) = 16 * parseHex s + hexDigitValue c"
  by (simp add: parseHex_def)

lemma parseHex_natHex: "parseHex (natHex n) = n"
proof (induction n rule: natHex.induct)
  case (1 n)
  show ?case
  proof (cases "n < 16")
    case True
    then show ?thesis
      by (subst natHex.simps) (simp add: parseHex_def hexDigitValue_hexDigit)
  next
    case False
    with 1 have "parseHex (natHex (n div 16)) = n div 16" by simp
    with False show ?thesis
      by (subst natHex.simps) (simp add: parseHex_snoc hexDigitValue_hexDigit)
  qed
qed

lemma natHex_magic: "natHex 0x1950a86a20f9469cfc6c = hexMagicNumber"
  by (simp add: natHex.simps hexDigit_def hexMagicNumber_def)

lemma parseHex_magic: "parseHex hexMagicNumber = 0x1950a86a20f9469cfc6c"
  by (simp add: parseHex_def hexMagicNumber_def hexDigitValue_def)

lemma natHex_eq_magic: "natHex n = hexMagicNumber \<longleftrightarrow> n = 0x1950a86a20f9469cfc6c"
  using parseHex_natHex [of n] natHex_magic parseHex_magic by auto

lemma bigIntText16_magic:
  "bigIntText16 n = hexMagicNumber \<longleftrightarrow> n = 0x1950a86a20f9469cfc6c"
proof (cases "n < 0")
  case True
  have "CHR ''-'' # natHex (nat (- n)) \<noteq> hexMagicNumber"
    by (simp add: hexMagicNumber_def)
  with True show ?thesis by (simp add: bigIntText16_def)
next
  case False
  then have "bigIntText16 n = natHex (nat n)" by (simp add: bigIntText16_def)
  moreover have "nat n = 0x1950a86a20f9469cfc6c \<longleftrightarrow> n = 0x1950a86a20f9469cfc6c"
    using False by auto
  ultimately show ?thesis by (simp add: natHex_eq_magic)
qed

section \<open>Facts about the resolver and the decoder run\<close>

lemma asString_Some: "asString v = Some s \<longleftrightarrow> v = VString s"
  by (cases v) auto

lemma asInt_Some: "asInt v = Some n \<longleftrightarrow> v = VInt n"
  by (cases v) auto

lemma asStorageClass_Some: "asStorageClass v = Some c \<longleftrightarrow> v = VStorageClass c"
  by (cases v) auto

lemma viewMetadataSwitch_Ok: "viewMetadataSwitch vm a = Ok v \<longleftrightarrow> vm = VNil \<and> v = VStorage a"
  by (cases vm) auto

lemma storageRootKey_Some:
  "storageRootKey sid = Some key \<longleftrightarrow>
     (\<exists>tuple. sid = VTuple tuple \<and> length tuple = 6 \<and> tuple ! 0 = VString ''storage''
        \<and> tuple ! 2 = VString key)"
  by (cases sid) (auto simp: storageRootKey_def asString_Some)

lemma persistentLoad_storage:
  "length tuple = 6 \<Longrightarrow> tuple ! 0 = VString ''storage'' \<Longrightarrow>
   persistentLoad st (VTuple tuple) = storageCase st tuple"
  by (simp add: persistentLoad_def)

lemma storageCase_registered_state:
  assumes "length tuple = 6" "tuple ! 2 = VString key" "deserializedObjects b key = Some x"
  shows "snd (storageCase b tuple) = b"
  using assms
  by (auto simp: storageCase_def lookupOrAllocate_def split: option.splits)

lemma storageCase_registered_value:
  assumes "length tuple = 6" "tuple ! 2 = VString key" "deserializedObjects b key = Some x"
    and "storageCase b tuple = (Ok v, a)"
  shows "v = VStorage x \<and> a = b"
  using assms
  by (auto simp: storageCase_def lookupOrAllocate_def viewMetadataSwitch_Ok
      split: option.splits)

lemma storageCase_fresh:
  assumes "length tuple = 6" "tuple ! 2 = VString key" "deserializedObjects b key = None"
    and "storageCase b tuple = (Ok v, a)"
  shows "v = VStorage (length (heap b))"
    and "\<exists>c loc n. tuple ! 1 = VStorageClass c \<and> tuple ! 3 = VString loc
           \<and> tuple ! 4 = VInt n \<and> heap a = heap b @ [New c n loc]"
    and "deserializedObjects a = (deserializedObjects b)(key \<mapsto> length (heap b))"
  using assms
  by (auto simp: storageCase_def lookupOrAllocate_def viewMetadataSwitch_Ok
      asString_Some asInt_Some asStorageClass_Some split: option.splits)

lemma storageCase_mono:
  "storageCase b tuple = (r, a) \<Longrightarrow> deserializedObjects b k = Some x
     \<Longrightarrow> deserializedObjects a k = Some x"
  by (auto simp: storageCase_def lookupOrAllocate_def split: option.splits if_splits)

lemma persistentLoad_mono:
  "persistentLoad b sid = (r, a) \<Longrightarrow> deserializedObjects b k = Some x
     \<Longrightarrow> deserializedObjects a k = Some x"
  by (auto simp: persistentLoad_def split: pyobj.splits option.splits if_splits
      dest: storageCase_mono)

lemma regInv_alloc:
  assumes "regInv b" "deserializedObjects b key = None"
  shows "regInv \<lparr>deserializedObjects = (deserializedObjects b)(key \<mapsto> length (heap b)),
                 heap = heap b @ [s]\<rparr>"
proof -
  let ?m = "deserializedObjects b"
  from assms have fin: "finite (dom ?m)" and inj: "inj_on ?m (dom ?m)"
    and ran: "ran ?m = {..<length (heap b)}"
    by (auto simp: regInv_def)
  have notin: "length (heap b) \<notin> ran ?m" using ran by simp
  have "inj_on (?m(key \<mapsto> length (heap b))) (dom (?m(key \<mapsto> length (heap b))))"
  proof (rule inj_onI)
    fix p q
    assume p: "p \<in> dom (?m(key \<mapsto> length (heap b)))"
      and q: "q \<in> dom (?m(key \<mapsto> length (heap b)))"
      and eq: "(?m(key \<mapsto> length (heap b))) p = (?m(key \<mapsto> length (heap b))) q"
    show "p = q"
    proof (cases "p = key")
      case True
      show ?thesis
      proof (cases "q = key")
        case True
        with \<open>p = key\<close> show ?thesis by simp
      next
        case False
        with True eq have "?m q = Some (length (heap b))" by simp
        then have "length (heap b) \<in> ran ?m" by (auto simp: ran_def)
        with notin show ?thesis by simp
      qed
    next
      case False
      show ?thesis
      proof (cases "q = key")
        case True
        with False eq have "?m p = Some (length (heap b))" by simp
        then have "length (heap b) \<in> ran ?m" by (auto simp: ran_def)
        with notin show ?thesis by simp
      next
        case qf: False
        with False eq p q have "?m p = ?m q" "p \<in> dom ?m" "q \<in> dom ?m" by auto
        with inj show ?thesis by (auto dest: inj_onD)
      qed
    qed
  qed
  moreover have "ran (?m(key \<mapsto> length (heap b))) = {..<length (heap b @ [s])}"
    using assms(2) ran by (auto simp: lessThan_Suc)
  ultimately show ?thesis using fin by (simp add: regInv_def)
qed

lemma storageCase_regInv:
  "regInv b \<Longrightarrow> storageCase b tuple = (r, a) \<Longrightarrow> regInv a"
  by (auto simp: storageCase_def lookupOrAllocate_def regInv_alloc
      split: option.splits if_splits)

lemma persistentLoad_regInv:
  "regInv b \<Longrightarrow> persistentLoad b sid = (r, a) \<Longrightarrow> regInv a"
  by (auto simp: persistentLoad_def split: pyobj.splits option.splits if_splits
      dest: storageCase_regInv)

lemma regInv_emptyState: "regInv emptyState"
  by (simp add: regInv_def emptyState_def)

lemma regInv_card: "regInv st \<Longrightarrow> card (dom (deserializedObjects st)) = length (heap st)"
proof -
  assume a: "regInv st"
  let ?m = "deserializedObjects st"
  have r: "ran ?m = the ` (?m ` dom ?m)" by (force simp: ran_def dom_def image_def)
  have injthe: "inj_on the (?m ` dom ?m)" by (auto simp: inj_on_def)
  from a have inj: "inj_on ?m (dom ?m)" by (simp add: regInv_def)
  have "card (the ` (?m ` dom ?m)) = card (?m ` dom ?m)" by (rule card_image [OF injthe])
  also have "\<dots> = card (dom ?m)" by (rule card_image [OF inj])
  finally have "card (ran ?m) = card (dom ?m)" using r by simp
  moreover from a have "ran ?m = {..<length (heap st)}" by (simp add: regInv_def)
  ultimately show ?thesis by simp
qed

lemma runLoad_regInv:
  "regInv st0 \<Longrightarrow> runLoad t st0 = (r, f, st, calls) \<Longrightarrow> regInv st"
proof (induction t arbitrary: st0 r f st calls)
  case (Return x1 x2)
  then show ?case by simp
next
  case (CallPersistentLoad f0 sid k)
  obtain res a where pl: "persistentLoad st0 sid = (res, a)" by (cases "persistentLoad st0 sid")
  with CallPersistentLoad.prems(1) have inv: "regInv a" by (rule persistentLoad_regInv)
  show ?case
  proof (cases res)
    case (Ok v)
    obtain r' f' st' calls' where sub: "runLoad (k v) a = (r', f', st', calls')"
      by (cases "runLoad (k v) a")
    with CallPersistentLoad.prems(2) pl Ok have "st = st'" by simp
    moreover have "regInv st'"
      using CallPersistentLoad.IH [OF _ inv sub] by simp
    ultimately show ?thesis by simp
  next
    case (Fail e)
    with CallPersistentLoad.prems(2) pl inv show ?thesis by simp
  next
    case (Panic m)
    with CallPersistentLoad.prems(2) pl inv show ?thesis by simp
  qed
qed

lemma runLoad_mono:
  "runLoad t st0 = (r, f, st, calls) \<Longrightarrow> deserializedObjects st0 k = Some x
     \<Longrightarrow> deserializedObjects st k = Some x"
proof (induction t arbitrary: st0 r f st calls)
  case (Return x1 x2)
  then show ?case by simp
next
  case (CallPersistentLoad f0 sid0 c)
  obtain res0 a0 where pl: "persistentLoad st0 sid0 = (res0, a0)"
    by (cases "persistentLoad st0 sid0")
  from persistentLoad_mono [OF pl CallPersistentLoad.prems(2)]
  have a0: "deserializedObjects a0 k = Some x" .
  show ?case
  proof (cases res0)
    case (Ok v)
    obtain r' f' st' calls' where sub: "runLoad (c v) a0 = (r', f', st', calls')"
      by (cases "runLoad (c v) a0")
    with CallPersistentLoad.prems(1) pl Ok have "st = st'" by simp
    with CallPersistentLoad.IH [OF _ sub a0] show ?thesis by simp
  next
    case (Fail e)
    with CallPersistentLoad.prems(1) pl a0 show ?thesis by simp
  next
    case (Panic m)
    with CallPersistentLoad.prems(1) pl a0 show ?thesis by simp
  qed
qed

lemma runLoad_calls:
  "runLoad t st0 = (r, f, st, calls) \<Longrightarrow> n < length calls \<Longrightarrow>
   calls ! n = (sid, b, res, a) \<Longrightarrow>
     persistentLoad b sid = (res, a)
     \<and> (\<forall>k x. deserializedObjects st0 k = Some x \<longrightarrow> deserializedObjects b k = Some x)
     \<and> (\<forall>k x. deserializedObjects a k = Some x \<longrightarrow> deserializedObjects st k = Some x)"
proof (induction t arbitrary: st0 r f st calls n)
  case (Return x1 x2)
  then show ?case by simp
next
  case (CallPersistentLoad f0 sid0 k)
  obtain res0 a0 where pl: "persistentLoad st0 sid0 = (res0, a0)"
    by (cases "persistentLoad st0 sid0")
  show ?case
  proof (cases res0)
    case (Ok v)
    obtain r' f' st' calls' where sub: "runLoad (k v) a0 = (r', f', st', calls')"
      by (cases "runLoad (k v) a0")
    with CallPersistentLoad.prems(1) pl Ok
    have eqs: "st = st'" "calls = (sid0, st0, Ok v, a0) # calls'" by simp_all
    show ?thesis
    proof (cases n)
      case 0
      with eqs CallPersistentLoad.prems(3) have e: "sid = sid0" "b = st0" "res = Ok v" "a = a0"
        by simp_all
      have "\<forall>k x. deserializedObjects a0 k = Some x \<longrightarrow> deserializedObjects st' k = Some x"
        using runLoad_mono [OF sub] by blast
      with e pl Ok eqs show ?thesis by simp
    next
      case (Suc m)
      with eqs CallPersistentLoad.prems have m: "m < length calls'" "calls' ! m = (sid, b, res, a)"
        by simp_all
      from CallPersistentLoad.IH [OF _ sub m]
      have "persistentLoad b sid = (res, a)"
        and "\<forall>k x. deserializedObjects a0 k = Some x \<longrightarrow> deserializedObjects b k = Some x"
        and "\<forall>k x. deserializedObjects a k = Some x \<longrightarrow> deserializedObjects st' k = Some x"
        by simp_all
      with eqs persistentLoad_mono [OF pl] show ?thesis by blast
    qed
  next
    case (Fail e)
    with CallPersistentLoad.prems pl show ?thesis by auto
  next
    case (Panic m)
    with CallPersistentLoad.prems pl show ?thesis by auto
  qed
qed


lemma runLoad_calls_order:
  "runLoad t st0 = (r, f, st, calls) \<Longrightarrow> i < j \<Longrightarrow> j < length calls \<Longrightarrow>
   calls ! i = (sid1, b1, r1, a1) \<Longrightarrow> calls ! j = (sid2, b2, r2, a2) \<Longrightarrow>
   deserializedObjects a1 k = Some x \<Longrightarrow> deserializedObjects b2 k = Some x"
proof (induction t arbitrary: st0 r f st calls i j)
  case (Return x1 x2)
  then show ?case by simp
next
  case (CallPersistentLoad f0 sid0 c)
  obtain res0 a0 where pl: "persistentLoad st0 sid0 = (res0, a0)"
    by (cases "persistentLoad st0 sid0")
  show ?case
  proof (cases res0)
    case (Ok v)
    obtain r' f' st' calls' where sub: "runLoad (c v) a0 = (r', f', st', calls')"
      by (cases "runLoad (c v) a0")
    with CallPersistentLoad.prems(1) pl Ok
    have eqs: "calls = (sid0, st0, Ok v, a0) # calls'" by simp
    from CallPersistentLoad.prems(2) obtain m where j: "j = Suc m" by (cases j) auto
    with eqs CallPersistentLoad.prems
    have m: "m < length calls'" "calls' ! m = (sid2, b2, r2, a2)" by simp_all
    show ?thesis
    proof (cases i)
      case 0
      with eqs CallPersistentLoad.prems(4) have "a1 = a0" by simp
      with runLoad_calls [OF sub m] CallPersistentLoad.prems(6) show ?thesis by blast
    next
      case (Suc i')
      with eqs j CallPersistentLoad.prems
      have "i' < m" "calls' ! i' = (sid1, b1, r1, a1)" by simp_all
      from CallPersistentLoad.IH [OF _ sub this(1) m(1) this(2) m(2) CallPersistentLoad.prems(6)]
      show ?thesis by simp
    qed
  next
    case (Fail e)
    with CallPersistentLoad.prems pl show ?thesis by auto
  next
    case (Panic m)
    with CallPersistentLoad.prems pl show ?thesis by auto
  qed
qed

section \<open>Facts about the header, the materialization loop and the entry point\<close>

lemma magic_rejected:
  assumes "unpickle env f = (Ok v, f1)" "v \<noteq> VBigInt 0x1950a86a20f9469cfc6c"
  shows "readAndCheckMagicNumber env f = (Fail ErrInvalidMagicNumber, f1)"
  using assms
  by (cases v) (simp_all add: readAndCheckMagicNumber_def bigIntText16_magic)

lemma magic_accepted:
  assumes "unpickle env f = (Ok (VBigInt 0x1950a86a20f9469cfc6c), f1)"
  shows "readAndCheckMagicNumber env f = (Ok (), f1)"
  using assms bigIntText16_magic [of "0x1950a86a20f9469cfc6c"]
  by (simp add: readAndCheckMagicNumber_def)

lemma version_rejected:
  assumes "unpickle env f = (Ok v, f1)" "v \<noteq> VInt 1001"
  shows "readAndChecProtocolVersion env f = (Fail ErrInvalidProtocolVersion, f1)"
  using assms
  by (cases v) (simp_all add: readAndChecProtocolVersion_def protocolVersion_def)

lemma version_accepted:
  assumes "unpickle env f = (Ok (VInt 1001), f1)"
  shows "readAndChecProtocolVersion env f = (Ok (), f1)"
  using assms by (simp add: readAndChecProtocolVersion_def protocolVersion_def)

lemma Load_legacy:
  assumes "\<not> zipOpenReaderOk env filename" "osOpen env filename = Ok f0"
    "tarNext env f0 = (Some tar_ErrHeader, f1)" "seekStartErr env f1 = None"
  shows "Load env filename = (case loadLegacyNoTar env (f1\<lparr>f_pos := 0\<rparr>) of (r, f2, h) \<Rightarrow> (r, h))"
  using assms by (simp add: Load_def isZipFile_def loadLegacyFile_def)

lemma Load_object_graph:
  assumes legacy: "\<not> zipOpenReaderOk env filename" "osOpen env filename = Ok f0"
      "tarNext env f0 = (Some tar_ErrHeader, f1)" "seekStartErr env f1 = None"
    and magic: "unpickle env (f1\<lparr>f_pos := 0\<rparr>) = (Ok (VBigInt 0x1950a86a20f9469cfc6c), f2)"
    and version: "unpickle env f2 = (Ok (VInt 1001), f3)"
  shows "loadLegacyNoTar env (f1\<lparr>f_pos := 0\<rparr>) =
           (case unpickle env f3 of
              (Ok sysInfo, f4) \<Rightarrow> loadObjectGraph env f4
            | (Fail err, f4) \<Rightarrow> (Fail err, f4, [])
            | (Panic m, f4) \<Rightarrow> (Panic m, f4, []))"
    and "Load env filename =
           (case unpickle env f3 of
              (Ok sysInfo, f4) \<Rightarrow> (case loadObjectGraph env f4 of (r, f5, h) \<Rightarrow> (r, h))
            | (Fail err, f4) \<Rightarrow> (Fail err, [])
            | (Panic m, f4) \<Rightarrow> (Panic m, []))"
proof -
  show a: "loadLegacyNoTar env (f1\<lparr>f_pos := 0\<rparr>) =
           (case unpickle env f3 of
              (Ok sysInfo, f4) \<Rightarrow> loadObjectGraph env f4
            | (Fail err, f4) \<Rightarrow> (Fail err, f4, [])
            | (Panic m, f4) \<Rightarrow> (Panic m, f4, []))"
    using magic_accepted [OF magic] version_accepted [OF version]
    by (simp add: loadLegacyNoTar_def split: prod.splits result.splits)
  show "Load env filename =
           (case unpickle env f3 of
              (Ok sysInfo, f4) \<Rightarrow> (case loadObjectGraph env f4 of (r, f5, h) \<Rightarrow> (r, h))
            | (Fail err, f4) \<Rightarrow> (Fail err, [])
            | (Panic m, f4) \<Rightarrow> (Panic m, []))"
    unfolding Load_legacy [OF legacy] a
    by (simp split: prod.splits result.splits)
qed






section \<open>Facts about the scripted environment\<close>

lemma scripted_zip: "zipOpenReaderOk (scriptedEnv z t tb g bs) name = z"
  by (simp add: scriptedEnv_def)

lemma scripted_open: "osOpen (scriptedEnv z t tb g bs) name = Ok \<lparr>f_content = bs, f_pos = 0\<rparr>"
  by (simp add: scriptedEnv_def)

lemma scripted_tar:
  "tarNext (scriptedEnv z t tb g bs) f = (t, f\<lparr>f_pos := min 512 (length (f_content f))\<rparr>)"
  by (simp add: scriptedEnv_def)

lemma scripted_seek: "seekStartErr (scriptedEnv z t tb g bs) f = None"
  by (simp add: scriptedEnv_def)

lemma scripted_unpickle:
  "unpickle (scriptedEnv z t tb g bs) f =
     (if f_pos f < length (f_content f)
        then (if unat (f_content f ! f_pos f) < length tb
              then Ok (tb ! unat (f_content f ! f_pos f))
              else Fail (ExternalError 0),
              f\<lparr>f_pos := Suc (f_pos f)\<rparr>)
        else (Fail io_EOF, f))"
  by (simp add: scriptedEnv_def unpickle_def)

lemma scripted_hooked:
  "unpicklerLoadHooked (scriptedEnv z t tb g bs) fc f = g (f\<lparr>f_pos := Suc (f_pos f)\<rparr>)"
  by (simp add: scriptedEnv_def)

lemma scripted_setFromFile: "setFromFile (scriptedEnv z t tb g bs) = SetFromFile"
  by (simp add: scriptedEnv_def)

lemma ex_zip: "\<not> zipOpenReaderOk (legacyExample m v s k p) name"
  by (simp add: legacyExample_def scripted_zip)

lemma ex_open: "osOpen (legacyExample m v s k p) name = Ok (exampleAt p 0)"
  by (simp add: legacyExample_def scripted_open exampleAt_def)

lemma ex_tar:
  "tarNext (legacyExample m v s k p) (exampleAt p 0)
     = (Some tar_ErrHeader, exampleAt p (min 512 (5 + length p)))"
  by (simp add: legacyExample_def scripted_tar exampleAt_def)

lemma ex_seek: "seekStartErr (legacyExample m v s k p) f = None"
  by (simp add: legacyExample_def scripted_seek)

lemma ex_unpickle0:
  "unpickle (legacyExample m v s k p) ((exampleAt p i)\<lparr>f_pos := 0\<rparr>) = (Ok m, exampleAt p 1)"
  by (simp add: legacyExample_def scripted_unpickle exampleAt_def)

lemma ex_unpickle1:
  "unpickle (legacyExample m v s k p) (exampleAt p 1) = (Ok v, exampleAt p 2)"
  by (simp add: legacyExample_def scripted_unpickle exampleAt_def)

lemma ex_unpickle2:
  "unpickle (legacyExample m v s k p) (exampleAt p 2) = (Ok VNil, exampleAt p 3)"
  by (simp add: legacyExample_def scripted_unpickle exampleAt_def)

lemma ex_hooked:
  "unpicklerLoadHooked (legacyExample m v s k p) fc (exampleAt p 3) = sharedGraph s (exampleAt p 4)"
  by (simp add: legacyExample_def scripted_hooked exampleAt_def)

lemma ex_unpickle4:
  "unpickle (legacyExample m v s k p) (exampleAt p 4) = (Ok k, exampleAt p 5)"
  by (simp add: legacyExample_def scripted_unpickle exampleAt_def)

lemma ex_setFromFile: "setFromFile (legacyExample m v s k p) = SetFromFile"
  by (simp add: legacyExample_def scripted_setFromFile)

lemma ex_first:
  "persistentLoad emptyState (exampleRecord ''0'' n VNil)
     = (Ok (VStorage 0),
        \<lparr>deserializedObjects = [''0'' \<mapsto> 0], heap = [New FloatStorageClass n ''cpu'']\<rparr>)"
  by (simp add: exampleRecord_def persistentLoad_def storageCase_def
      lookupOrAllocate_def emptyState_def)

lemma ex_second:
  "persistentLoad \<lparr>deserializedObjects = [''0'' \<mapsto> 0], heap = [New FloatStorageClass n ''cpu'']\<rparr>
       (exampleRecord ''0'' n VNil)
     = (Ok (VStorage 0),
        \<lparr>deserializedObjects = [''0'' \<mapsto> 0], heap = [New FloatStorageClass n ''cpu'']\<rparr>)"
  by (simp add: exampleRecord_def persistentLoad_def storageCase_def lookupOrAllocate_def)

lemma ex_run:
  "runLoad (sharedGraph (exampleRecord ''0'' n VNil) f) emptyState
     = (Ok (VTuple [VStorage 0, VStorage 0]), f,
        \<lparr>deserializedObjects = [''0'' \<mapsto> 0], heap = [New FloatStorageClass n ''cpu'']\<rparr>,
        [(exampleRecord ''0'' n VNil, emptyState, Ok (VStorage 0),
          \<lparr>deserializedObjects = [''0'' \<mapsto> 0], heap = [New FloatStorageClass n ''cpu'']\<rparr>),
         (exampleRecord ''0'' n VNil,
          \<lparr>deserializedObjects = [''0'' \<mapsto> 0], heap = [New FloatStorageClass n ''cpu'']\<rparr>,
          Ok (VStorage 0),
          \<lparr>deserializedObjects = [''0'' \<mapsto> 0], heap = [New FloatStorageClass n ''cpu'']\<rparr>)])"
  by (simp add: sharedGraph_def ex_first ex_second)

lemma ex_read4:
  "SetFromFile (New FloatStorageClass 1 ''cpu'') (exampleAt [a, b, c, d] 5)
     = (Ok (), \<lparr>st_kind = FloatStorageClass, st_count = 1, st_location = ''cpu'',
                 st_data = Some [a, b, c, d]\<rparr>, exampleAt [a, b, c, d] 9)"
  by (simp add: SetFromFile_def New_def exampleAt_def)


section \<open>Storages are shared by root key\<close>

text \<open>
  Claim C1. During one run of the decoder against the resolver, started as
  \<^verbatim>\<open>loadLegacyNoTar\<close> starts it (empty registry, no storage allocated), take two
  resolver calls, an earlier and a later one, that are both given storage records with
  the same root key and both resolve. Then both return the same storage (the same
  address, not only equal contents); the later call finds the key registered and
  changes neither the registry nor the heap, so it allocates nothing; when the earlier
  call is the first to meet the key, it returns a newly allocated storage, appended to
  the heap, which is the one that the storage class of the record (element 1) allocates
  for the record's element count (element 4) and location (element 3), and it registers
  that storage under the root key; and at the end of the run the heap holds exactly one
  storage for each registered root key.
\<close>

theorem same_root_key_same_storage:
  assumes run: "runLoad t emptyState = (r, f, st, calls)"
    and ij: "i < j" "j < length calls"
    and ci: "calls ! i = (id1, b1, Ok v1, a1)"
    and cj: "calls ! j = (id2, b2, Ok v2, a2)"
    and k1: "storageRootKey id1 = Some key"
    and k2: "storageRootKey id2 = Some key"
  shows "v1 = v2
    \<and> (\<exists>x. v2 = VStorage x \<and> deserializedObjects b2 key = Some x
          \<and> deserializedObjects st key = Some x \<and> x < length (heap st))
    \<and> a2 = b2
    \<and> (deserializedObjects b1 key = None \<longrightarrow>
          v1 = VStorage (length (heap b1))
          \<and> (\<exists>tuple c loc n. id1 = VTuple tuple \<and> tuple ! 1 = VStorageClass c
                \<and> tuple ! 3 = VString loc \<and> tuple ! 4 = VInt n
                \<and> heap a1 = heap b1 @ [New c n loc])
          \<and> deserializedObjects a1 = (deserializedObjects b1)(key \<mapsto> length (heap b1)))
    \<and> card (dom (deserializedObjects st)) = length (heap st)"
proof -
  from ij have i: "i < length calls" by simp
  from runLoad_calls [OF run i ci]
  have pl1: "persistentLoad b1 id1 = (Ok v1, a1)"
    and fin1: "\<forall>k x. deserializedObjects a1 k = Some x \<longrightarrow> deserializedObjects st k = Some x"
    by simp_all
  from runLoad_calls [OF run ij(2) cj]
  have pl2: "persistentLoad b2 id2 = (Ok v2, a2)" by simp
  from k1 obtain t1 where t1: "id1 = VTuple t1" "length t1 = 6" "t1 ! 0 = VString ''storage''"
    "t1 ! 2 = VString key" by (auto simp: storageRootKey_Some)
  from k2 obtain t2 where t2: "id2 = VTuple t2" "length t2 = 6" "t2 ! 0 = VString ''storage''"
    "t2 ! 2 = VString key" by (auto simp: storageRootKey_Some)
  from t1 pl1 have sc1: "storageCase b1 t1 = (Ok v1, a1)"
    using persistentLoad_storage [OF t1(2) t1(3), of b1] by simp
  from t2 pl2 have sc2: "storageCase b2 t2 = (Ok v2, a2)"
    using persistentLoad_storage [OF t2(2) t2(3), of b2] by simp
  \<comment> \<open>after the first call the key is registered, with the storage returned\<close>
  have reg1: "deserializedObjects a1 key = Some (case v1 of VStorage x \<Rightarrow> x | _ \<Rightarrow> 0)
      \<and> (\<exists>x. v1 = VStorage x)"
  proof (cases "deserializedObjects b1 key")
    case None
    from storageCase_fresh [OF t1(2) t1(4) None sc1] show ?thesis by simp
  next
    case (Some x)
    from storageCase_registered_value [OF t1(2) t1(4) Some sc1] Some show ?thesis by simp
  qed
  then obtain x where x: "v1 = VStorage x" "deserializedObjects a1 key = Some x" by auto
  from runLoad_calls_order [OF run ij ci cj x(2)]
  have b2: "deserializedObjects b2 key = Some x" .
  from storageCase_registered_value [OF t2(2) t2(4) b2 sc2]
  have v2: "v2 = VStorage x" "a2 = b2" by simp_all
  from fin1 x have fin: "deserializedObjects st key = Some x" by blast
  have inv: "regInv st" using runLoad_regInv [OF regInv_emptyState run] .
  then have "x \<in> ran (deserializedObjects st) \<Longrightarrow> x < length (heap st)"
    by (simp add: regInv_def)
  with fin have lt: "x < length (heap st)" by (auto simp: ran_def)
  have fresh: "deserializedObjects b1 key = None \<longrightarrow>
          v1 = VStorage (length (heap b1))
          \<and> (\<exists>tuple c loc n. id1 = VTuple tuple \<and> tuple ! 1 = VStorageClass c
                \<and> tuple ! 3 = VString loc \<and> tuple ! 4 = VInt n
                \<and> heap a1 = heap b1 @ [New c n loc])
          \<and> deserializedObjects a1 = (deserializedObjects b1)(key \<mapsto> length (heap b1))"
  proof
    assume none: "deserializedObjects b1 key = None"
    from storageCase_fresh [OF t1(2) t1(4) none sc1] t1(1) show
      "v1 = VStorage (length (heap b1))
          \<and> (\<exists>tuple c loc n. id1 = VTuple tuple \<and> tuple ! 1 = VStorageClass c
                \<and> tuple ! 3 = VString loc \<and> tuple ! 4 = VInt n
                \<and> heap a1 = heap b1 @ [New c n loc])
          \<and> deserializedObjects a1 = (deserializedObjects b1)(key \<mapsto> length (heap b1))"
      by blast
  qed
  from x v2 b2 fin lt fresh regInv_card [OF inv] show ?thesis by simp
qed


theorem same_root_key_same_storage_witness:
  "runLoad twoReferences emptyState =
     (Ok (VTuple [VStorage 0, VStorage 0]), exampleFile, oneStorage,
      [(exampleRecord ''0'' 10 VNil, emptyState, Ok (VStorage 0), oneStorage),
       (exampleRecord ''0'' 10 VNil, oneStorage, Ok (VStorage 0), oneStorage)])
   \<and> storageRootKey (exampleRecord ''0'' 10 VNil) = Some ''0''
   \<and> heap oneStorage = heap emptyState @ [New FloatStorageClass 10 ''cpu'']
   \<and> deserializedObjects oneStorage = (deserializedObjects emptyState)(''0'' \<mapsto> 0)
   \<and> card (dom (deserializedObjects oneStorage)) = length (heap oneStorage)"
proof -
  let ?rec = "exampleRecord ''0'' 10 VNil"
  let ?calls = "[(?rec, emptyState, Ok (VStorage 0), oneStorage),
       (?rec, oneStorage, Ok (VStorage 0), oneStorage)]"
  have first: "persistentLoad emptyState ?rec = (Ok (VStorage 0), oneStorage)"
    by (simp add: exampleRecord_def persistentLoad_def storageCase_def
        lookupOrAllocate_def emptyState_def oneStorage_def)
  have second: "persistentLoad oneStorage ?rec = (Ok (VStorage 0), oneStorage)"
    by (simp add: exampleRecord_def persistentLoad_def storageCase_def
        lookupOrAllocate_def oneStorage_def)
  have run: "runLoad twoReferences emptyState =
     (Ok (VTuple [VStorage 0, VStorage 0]), exampleFile, oneStorage, ?calls)"
    by (simp add: twoReferences_def first second)
  have key: "storageRootKey ?rec = Some ''0''"
    by (simp add: storageRootKey_def exampleRecord_def)
  have ij: "(0::nat) < 1" "1 < length ?calls" by simp_all
  have ci: "?calls ! 0 = (?rec, emptyState, Ok (VStorage 0), oneStorage)"
    by simp
  have cj: "?calls ! 1 = (?rec, oneStorage, Ok (VStorage 0), oneStorage)"
    by simp
  have new: "deserializedObjects emptyState ''0'' = None"
    by (simp add: emptyState_def)
  note shared = same_root_key_same_storage [OF run ij ci cj key key]
  from shared have fresh: "deserializedObjects emptyState ''0'' = None \<longrightarrow>
          VStorage 0 = VStorage (length (heap emptyState))
          \<and> (\<exists>tuple c loc n. ?rec = VTuple tuple \<and> tuple ! 1 = VStorageClass c
                \<and> tuple ! 3 = VString loc \<and> tuple ! 4 = VInt n
                \<and> heap oneStorage = heap emptyState @ [New c n loc])
          \<and> deserializedObjects oneStorage
               = (deserializedObjects emptyState)(''0'' \<mapsto> length (heap emptyState))"
    by (elim conjE)
  from shared
  have cardinality: "card (dom (deserializedObjects oneStorage)) = length (heap oneStorage)"
    by (elim conjE)
  from fresh new obtain tuple c loc n where
    t: "?rec = VTuple tuple" "tuple ! 1 = VStorageClass c" "tuple ! 3 = VString loc"
       "tuple ! 4 = VInt n"
    and h: "heap oneStorage = heap emptyState @ [New c n loc]"
    and d: "deserializedObjects oneStorage
               = (deserializedObjects emptyState)(''0'' \<mapsto> length (heap emptyState))"
    by blast
  from t(1) have "tuple = [VString ''storage'', VStorageClass FloatStorageClass, VString ''0'',
      VString ''cpu'', VInt 10, VNil]"
    by (simp add: exampleRecord_def)
  with t(2-4) have "c = FloatStorageClass" "loc = ''cpu''" "n = 10"
    by simp_all
  with h have alloc: "heap oneStorage = heap emptyState @ [New FloatStorageClass 10 ''cpu'']"
    by simp
  have "length (heap emptyState) = 0" by (simp add: emptyState_def)
  with d have reg: "deserializedObjects oneStorage = (deserializedObjects emptyState)(''0'' \<mapsto> 0)"
    by simp
  from run key alloc reg cardinality show ?thesis by (intro conjI)
qed

section \<open>View metadata is not implemented\<close>



section \<open>The header checks\<close>

text \<open>
  Claim C3. Take a file that \<^verbatim>\<open>Load\<close> treats as a legacy file without tar wrapping:
  the zip probe rejects it, it opens, the first tar header is invalid and the rewind
  succeeds. If decoding the first value succeeds with a value that is not the big
  integer \<^verbatim>\<open>0x1950a86a20f9469cfc6c\<close> (a big integer with another value, or a value of any
  other type), then \<^verbatim>\<open>Load\<close> fails with \<^verbatim>\<open>ErrInvalidMagicNumber\<close>, and
  \<^verbatim>\<open>loadLegacyNoTar\<close> leaves the file exactly where the decoding of that first value left
  it and has allocated no storage: nothing more is decoded or read.
\<close>

theorem invalid_magic_number:
  assumes legacy: "\<not> zipOpenReaderOk env filename" "osOpen env filename = Ok f0"
      "tarNext env f0 = (Some tar_ErrHeader, f1)" "seekStartErr env f1 = None"
    and first: "unpickle env (f1\<lparr>f_pos := 0\<rparr>) = (Ok v, f2)"
    and bad: "v \<noteq> VBigInt 0x1950a86a20f9469cfc6c"
  shows "Load env filename = (Fail ErrInvalidMagicNumber, [])
    \<and> loadLegacyNoTar env (f1\<lparr>f_pos := 0\<rparr>) = (Fail ErrInvalidMagicNumber, f2, [])"
proof -
  from magic_rejected [OF first bad]
  have "loadLegacyNoTar env (f1\<lparr>f_pos := 0\<rparr>) = (Fail ErrInvalidMagicNumber, f2, [])"
    by (simp add: loadLegacyNoTar_def)
  with Load_legacy [OF legacy] show ?thesis by simp
qed

theorem invalid_magic_number_witness:
  "Load (legacyExample (VBigInt 0x1950a86a20f9469cfc6d) (VInt 1001) (exampleRecord ''0'' 1 VNil)
           (VList [VString ''0'']) [1, 2, 3, 4]) ''model.pt''
     = (Fail ErrInvalidMagicNumber, [])
   \<and> loadLegacyNoTar (legacyExample (VBigInt 0x1950a86a20f9469cfc6d) (VInt 1001)
           (exampleRecord ''0'' 1 VNil) (VList [VString ''0'']) [1, 2, 3, 4])
         ((exampleAt [1, 2, 3, 4] (min 512 (5 + length [1, 2, 3, 4 :: byte])))\<lparr>f_pos := 0\<rparr>)
     = (Fail ErrInvalidMagicNumber, exampleAt [1, 2, 3, 4] 1, [])"
proof -
  have bad: "VBigInt 0x1950a86a20f9469cfc6d \<noteq> VBigInt 0x1950a86a20f9469cfc6c" by simp
  show ?thesis
    by (rule invalid_magic_number [OF ex_zip ex_open ex_tar ex_seek ex_unpickle0 bad])
qed

text \<open>
  Claim C4. Take a legacy file as above whose first value is the magic number and
  whose second value decodes to \<open>v\<close>. If \<open>v\<close> is not the integer 1001 (another
  integer, or a value of another type), \<^verbatim>\<open>Load\<close> fails with
  \<^verbatim>\<open>ErrInvalidProtocolVersion\<close> and the file is left where the decoding of the second
  value left it. If \<open>v\<close> is the integer 1001, the load goes on to decode the system
  info from that position: what \<^verbatim>\<open>Load\<close> returns is the error or panic of that
  decoding, or else what the rest of the load returns from the position after the
  system info.
\<close>

theorem protocol_version_check:
  assumes legacy: "\<not> zipOpenReaderOk env filename" "osOpen env filename = Ok f0"
      "tarNext env f0 = (Some tar_ErrHeader, f1)" "seekStartErr env f1 = None"
    and magic: "unpickle env (f1\<lparr>f_pos := 0\<rparr>) = (Ok (VBigInt 0x1950a86a20f9469cfc6c), f2)"
    and second: "unpickle env f2 = (Ok v, f3)"
  shows "(v \<noteq> VInt 1001 \<longrightarrow>
            Load env filename = (Fail ErrInvalidProtocolVersion, [])
            \<and> loadLegacyNoTar env (f1\<lparr>f_pos := 0\<rparr>) = (Fail ErrInvalidProtocolVersion, f3, []))
    \<and> (v = VInt 1001 \<longrightarrow>
            Load env filename =
              (case unpickle env f3 of
                 (Ok sysInfo, f4) \<Rightarrow> (case loadObjectGraph env f4 of (r, f5, h) \<Rightarrow> (r, h))
               | (Fail err, f4) \<Rightarrow> (Fail err, [])
               | (Panic m, f4) \<Rightarrow> (Panic m, [])))"
proof (intro conjI impI)
  assume bad: "v \<noteq> VInt 1001"
  from magic_accepted [OF magic] version_rejected [OF second bad]
  show nt: "loadLegacyNoTar env (f1\<lparr>f_pos := 0\<rparr>) = (Fail ErrInvalidProtocolVersion, f3, [])"
    by (simp add: loadLegacyNoTar_def)
  with Load_legacy [OF legacy] show "Load env filename = (Fail ErrInvalidProtocolVersion, [])"
    by simp
next
  assume "v = VInt 1001"
  with second have "unpickle env f2 = (Ok (VInt 1001), f3)" by simp
  from Load_object_graph(2) [OF legacy magic this]
  show "Load env filename =
              (case unpickle env f3 of
                 (Ok sysInfo, f4) \<Rightarrow> (case loadObjectGraph env f4 of (r, f5, h) \<Rightarrow> (r, h))
               | (Fail err, f4) \<Rightarrow> (Fail err, [])
               | (Panic m, f4) \<Rightarrow> (Panic m, []))" .
qed

theorem protocol_version_check_witness:
  "Load (legacyExample validMagic (VInt 1002) (exampleRecord ''0'' 1 VNil)
           (VList [VString ''0'']) [1, 2, 3, 4]) ''model.pt''
     = (Fail ErrInvalidProtocolVersion, [])
   \<and> Load (legacyExample validMagic (VString ''1001'') (exampleRecord ''0'' 1 VNil)
           (VList [VString ''0'']) [1, 2, 3, 4]) ''model.pt''
     = (Fail ErrInvalidProtocolVersion, [])
   \<and> Load (legacyExample validMagic (VInt 1001) (exampleRecord ''0'' 1 VNil)
           (VList [VString ''0'']) [1, 2, 3, 4]) ''model.pt''
     = (Ok (VTuple [VStorage 0, VStorage 0]),
        [\<lparr>st_kind = FloatStorageClass, st_count = 1, st_location = ''cpu'',
          st_data = Some [1, 2, 3, 4]\<rparr>])"
proof -
  let ?rec = "exampleRecord ''0'' 1 VNil"
  let ?keys = "VList [VString ''0'']"
  let ?p = "[1, 2, 3, 4 :: byte]"
  have m: "unpickle (legacyExample validMagic v ?rec ?keys ?p)
        ((exampleAt ?p (min 512 (5 + length ?p)))\<lparr>f_pos := 0\<rparr>)
      = (Ok (VBigInt 0x1950a86a20f9469cfc6c), exampleAt ?p 1)" for v
    using ex_unpickle0 [of validMagic] by (simp add: validMagic_def)
  have step: "(v \<noteq> VInt 1001 \<longrightarrow>
        Load (legacyExample validMagic v ?rec ?keys ?p) ''model.pt''
          = (Fail ErrInvalidProtocolVersion, [])
        \<and> loadLegacyNoTar (legacyExample validMagic v ?rec ?keys ?p)
            ((exampleAt ?p (min 512 (5 + length ?p)))\<lparr>f_pos := 0\<rparr>)
          = (Fail ErrInvalidProtocolVersion, exampleAt ?p 2, []))
    \<and> (v = VInt 1001 \<longrightarrow>
        Load (legacyExample validMagic v ?rec ?keys ?p) ''model.pt'' =
          (case unpickle (legacyExample validMagic v ?rec ?keys ?p) (exampleAt ?p 2) of
             (Ok sysInfo, f4) \<Rightarrow>
               (case loadObjectGraph (legacyExample validMagic v ?rec ?keys ?p) f4 of
                  (r, f5, h) \<Rightarrow> (r, h))
           | (Fail err, f4) \<Rightarrow> (Fail err, [])
           | (Panic m, f4) \<Rightarrow> (Panic m, [])))" for v
    by (rule protocol_version_check [OF ex_zip ex_open ex_tar ex_seek m ex_unpickle1])
  have a: "Load (legacyExample validMagic (VInt 1002) ?rec ?keys ?p) ''model.pt''
      = (Fail ErrInvalidProtocolVersion, [])"
    using step [of "VInt 1002"] by simp
  have b: "Load (legacyExample validMagic (VString ''1001'') ?rec ?keys ?p) ''model.pt''
      = (Fail ErrInvalidProtocolVersion, [])"
    using step [of "VString ''1001''"] by simp
  have g: "loadObjectGraph (legacyExample validMagic (VInt 1001) ?rec ?keys ?p) (exampleAt ?p 3)
      = (Ok (VTuple [VStorage 0, VStorage 0]), exampleAt ?p 9,
         [\<lparr>st_kind = FloatStorageClass, st_count = 1, st_location = ''cpu'',
          st_data = Some [1, 2, 3, 4]\<rparr>])"
    by (simp add: loadObjectGraph_def ex_hooked ex_run ex_unpickle4 makeStorageKeys_def
        ex_setFromFile ex_read4)
  have c: "Load (legacyExample validMagic (VInt 1001) ?rec ?keys ?p) ''model.pt''
      = (Ok (VTuple [VStorage 0, VStorage 0]),
        [\<lparr>st_kind = FloatStorageClass, st_count = 1, st_location = ''cpu'',
          st_data = Some [1, 2, 3, 4]\<rparr>])"
    using step [of "VInt 1001"] by (simp add: ex_unpickle2 g)
  from a b c show ?thesis by (intro conjI)
qed

section \<open>Malformed storage records\<close>

text \<open>
  Claim C5. For every tuple whose first element is the string \<^verbatim>\<open>"storage"\<close> and whose
  number of elements is not six (fewer, also the tuple of that string alone, or more),
  the resolver fails with the error \<^verbatim>\<open>PersistentLoad: unexpected storage data length\<close>
  of lines 91 to 94; the registry and the heap are unchanged, so no storage is allocated
  or registered; the decoder returns that very error from its run; and the error
  differs from the errors that the resolver gives for a value that is not a tuple, for a
  first element that is not a string and for an unexpected type name.
\<close>

theorem storage_record_wrong_length:
  assumes "length rest \<noteq> 5"
  shows "persistentLoad st (VTuple (VString ''storage'' # rest))
           = (Fail (Errorf ''PersistentLoad: unexpected storage data length''), st)
    \<and> runLoad (CallPersistentLoad f (VTuple (VString ''storage'' # rest)) k) st
           = (Fail (Errorf ''PersistentLoad: unexpected storage data length''), f, st,
              [(VTuple (VString ''storage'' # rest), st,
                Fail (Errorf ''PersistentLoad: unexpected storage data length''), st)])
    \<and> Errorf ''PersistentLoad: unexpected storage data length''
          \<noteq> Errorf ''PersistentLoad: non-empty tuple espected''
    \<and> Errorf ''PersistentLoad: unexpected storage data length''
          \<noteq> Errorf ''PersistentLoad: cannot get typename''
    \<and> Errorf ''PersistentLoad: unexpected storage data length''
          \<noteq> Errorf (''Unexpected saved ID type: '' @ typename)"
  using assms by (simp add: persistentLoad_def storageCase_def)

theorem storage_record_wrong_length_witness:
  "persistentLoad oneStorage (VTuple [VString ''storage''])
     = (Fail (Errorf ''PersistentLoad: unexpected storage data length''), oneStorage)
   \<and> persistentLoad emptyState
       (VTuple [VString ''storage'', VStorageClass FloatStorageClass, VString ''0'',
                VString ''cpu'', VInt 10])
     = (Fail (Errorf ''PersistentLoad: unexpected storage data length''), emptyState)
   \<and> persistentLoad emptyState
       (VTuple [VString ''storage'', VStorageClass FloatStorageClass, VString ''0'',
                VString ''cpu'', VInt 10, VNil, VNil])
     = (Fail (Errorf ''PersistentLoad: unexpected storage data length''), emptyState)"
proof -
  have 1: "length ([] :: pyobj list) \<noteq> 5" by simp
  have 2: "length [VStorageClass FloatStorageClass, VString ''0'', VString ''cpu'', VInt 10] \<noteq> 5"
    by simp
  have 3: "length [VStorageClass FloatStorageClass, VString ''0'', VString ''cpu'', VInt 10,
                   VNil, VNil] \<noteq> 5"
    by simp
  let ?k = "\<lambda>v. Return (Ok v) exampleFile"
  from storage_record_wrong_length [OF 1, where st = oneStorage and f = exampleFile and k = ?k]
    storage_record_wrong_length [OF 2, where st = emptyState and f = exampleFile and k = ?k]
    storage_record_wrong_length [OF 3, where st = emptyState and f = exampleFile and k = ?k]
  show ?thesis by simp
qed

text \<open>
  Claim C6. Take a \<^verbatim>\<open>"storage"\<close> tuple of six elements. If the second element is not a
  storage class, or the third (root key) or the fourth (location) is not a string, or
  the fifth (element count) is not an integer, the resolver fails with
  \<^verbatim>\<open>PersistentLoad: unexpected data types\<close>, whatever the sixth element is, and changes
  nothing. If those four have the right types and the sixth element (view metadata) is
  neither nil nor a sequence, the resolver fails with
  \<^verbatim>\<open>PersistentLoad: unexpected view metadata type\<close>; if it is a sequence that does not
  have three elements, the resolver fails with
  \<^verbatim>\<open>PersistentLoad: unexpected view metadata length\<close>. In these two cases the root key has
  been looked up, and registered when new, before the failure (lines 103 to 107).
\<close>

theorem storage_record_wrong_types:
  "((\<forall>c. dataType \<noteq> VStorageClass c) \<or> (\<forall>s. rootKey \<noteq> VString s)
      \<or> (\<forall>s. location \<noteq> VString s) \<or> (\<forall>i. count \<noteq> VInt i) \<longrightarrow>
      persistentLoad st
          (VTuple [VString ''storage'', dataType, rootKey, location, count, viewMetadata])
        = (Fail (Errorf ''PersistentLoad: unexpected data types''), st))
   \<and> (viewMetadata \<noteq> VNil \<and> (\<forall>vm. viewMetadata \<noteq> VSlice vm) \<longrightarrow>
      persistentLoad st
          (VTuple [VString ''storage'', VStorageClass c, VString key, VString loc, VInt n,
                   viewMetadata])
        = (Fail (Errorf ''PersistentLoad: unexpected view metadata type''),
           snd (lookupOrAllocate st c key loc n)))
   \<and> (length vm \<noteq> 3 \<longrightarrow>
      persistentLoad st
          (VTuple [VString ''storage'', VStorageClass c, VString key, VString loc, VInt n,
                   VSlice vm])
        = (Fail (Errorf ''PersistentLoad: unexpected view metadata length''),
           snd (lookupOrAllocate st c key loc n)))"
proof (intro conjI impI)
  assume "(\<forall>c. dataType \<noteq> VStorageClass c) \<or> (\<forall>s. rootKey \<noteq> VString s)
      \<or> (\<forall>s. location \<noteq> VString s) \<or> (\<forall>i. count \<noteq> VInt i)"
  then have "asStorageClass dataType = None \<or> asString rootKey = None
      \<or> asString location = None \<or> asInt count = None"
    by (metis asStorageClass_Some asString_Some asInt_Some not_Some_eq)
  then show "persistentLoad st
          (VTuple [VString ''storage'', dataType, rootKey, location, count, viewMetadata])
        = (Fail (Errorf ''PersistentLoad: unexpected data types''), st)"
    by (auto simp: persistentLoad_def storageCase_def split: option.splits)
next
  assume "viewMetadata \<noteq> VNil \<and> (\<forall>vm. viewMetadata \<noteq> VSlice vm)"
  then have "viewMetadataSwitch viewMetadata a
      = Fail (Errorf ''PersistentLoad: unexpected view metadata type'')" for a
    by (cases viewMetadata) simp_all
  then show "persistentLoad st
          (VTuple [VString ''storage'', VStorageClass c, VString key, VString loc, VInt n,
                   viewMetadata])
        = (Fail (Errorf ''PersistentLoad: unexpected view metadata type''),
           snd (lookupOrAllocate st c key loc n))"
    by (simp add: persistentLoad_def storageCase_def split: prod.splits)
next
  assume "length vm \<noteq> 3"
  then show "persistentLoad st
          (VTuple [VString ''storage'', VStorageClass c, VString key, VString loc, VInt n,
                   VSlice vm])
        = (Fail (Errorf ''PersistentLoad: unexpected view metadata length''),
           snd (lookupOrAllocate st c key loc n))"
    by (simp add: persistentLoad_def storageCase_def split: prod.splits)
qed

theorem storage_record_wrong_types_witness:
  "persistentLoad emptyState
      (VTuple [VString ''storage'', VString ''torch.FloatStorage'', VString ''0'', VString ''cpu'',
               VInt 10, VNil])
     = (Fail (Errorf ''PersistentLoad: unexpected data types''), emptyState)
   \<and> persistentLoad emptyState
      (VTuple [VString ''storage'', VStorageClass FloatStorageClass, VInt 0, VString ''cpu'',
               VInt 10, VNil])
     = (Fail (Errorf ''PersistentLoad: unexpected data types''), emptyState)
   \<and> persistentLoad emptyState
      (VTuple [VString ''storage'', VStorageClass FloatStorageClass, VString ''0'', VNil,
               VInt 10, VNil])
     = (Fail (Errorf ''PersistentLoad: unexpected data types''), emptyState)
   \<and> persistentLoad emptyState
      (VTuple [VString ''storage'', VStorageClass FloatStorageClass, VString ''0'', VString ''cpu'',
               VString ''10'', VNil])
     = (Fail (Errorf ''PersistentLoad: unexpected data types''), emptyState)
   \<and> persistentLoad emptyState (exampleRecord ''0'' 10 (VString ''view''))
     = (Fail (Errorf ''PersistentLoad: unexpected view metadata type''), oneStorage)
   \<and> persistentLoad emptyState (exampleRecord ''0'' 10 (VSlice [VString ''1'', VInt 2]))
     = (Fail (Errorf ''PersistentLoad: unexpected view metadata length''), oneStorage)"
proof -
  have alloc: "snd (lookupOrAllocate emptyState FloatStorageClass ''0'' ''cpu'' 10) = oneStorage"
    by (simp add: lookupOrAllocate_def emptyState_def oneStorage_def)
  have 1: "persistentLoad emptyState
      (VTuple [VString ''storage'', VString ''torch.FloatStorage'', VString ''0'', VString ''cpu'',
               VInt 10, VNil])
     = (Fail (Errorf ''PersistentLoad: unexpected data types''), emptyState)"
    using storage_record_wrong_types [of "VString ''torch.FloatStorage''" "VString ''0''"
        "VString ''cpu''" "VInt 10" emptyState VNil]
    by simp
  have 2: "persistentLoad emptyState
      (VTuple [VString ''storage'', VStorageClass FloatStorageClass, VInt 0, VString ''cpu'',
               VInt 10, VNil])
     = (Fail (Errorf ''PersistentLoad: unexpected data types''), emptyState)"
    using storage_record_wrong_types [of "VStorageClass FloatStorageClass" "VInt 0"
        "VString ''cpu''" "VInt 10" emptyState VNil]
    by simp
  have 3: "persistentLoad emptyState
      (VTuple [VString ''storage'', VStorageClass FloatStorageClass, VString ''0'', VNil,
               VInt 10, VNil])
     = (Fail (Errorf ''PersistentLoad: unexpected data types''), emptyState)"
    using storage_record_wrong_types [of "VStorageClass FloatStorageClass" "VString ''0''"
        VNil "VInt 10" emptyState VNil]
    by simp
  have 4: "persistentLoad emptyState
      (VTuple [VString ''storage'', VStorageClass FloatStorageClass, VString ''0'', VString ''cpu'',
               VString ''10'', VNil])
     = (Fail (Errorf ''PersistentLoad: unexpected data types''), emptyState)"
    using storage_record_wrong_types [of "VStorageClass FloatStorageClass" "VString ''0''"
        "VString ''cpu''" "VString ''10''" emptyState VNil]
    by simp
  have 5: "persistentLoad emptyState (exampleRecord ''0'' 10 (VString ''view''))
     = (Fail (Errorf ''PersistentLoad: unexpected view metadata type''), oneStorage)"
    using storage_record_wrong_types [of VNil VNil VNil VNil emptyState "VString ''view''"
        FloatStorageClass "''0''" "''cpu''" 10 "[]"]
    by (simp add: exampleRecord_def alloc)
  have 6: "persistentLoad emptyState (exampleRecord ''0'' 10 (VSlice [VString ''1'', VInt 2]))
     = (Fail (Errorf ''PersistentLoad: unexpected view metadata length''), oneStorage)"
    using storage_record_wrong_types [of VNil VNil VNil VNil emptyState VNil
        FloatStorageClass "''0''" "''cpu''" 10 "[VString ''1'', VInt 2]"]
    by (simp add: exampleRecord_def alloc)
  from 1 2 3 4 5 6 show ?thesis by (intro conjI)
qed

section \<open>Unknown storage keys\<close>




section \<open>Zip archives are not implemented\<close>




section \<open>Module references are not implemented\<close>

text \<open>
  Claim C9, as amended. For every tuple whose first element is the string
  \<^verbatim>\<open>"module"\<close>, whatever the other elements are, the resolver panics with
  \<^verbatim>\<open>PersistentLoad module not implemented\<close> (line 131). It returns no reference and
  leaves the registry unchanged, and the panic unwinds through the decoder, so the run of
  the decoder ends with it.
\<close>

theorem module_reference_not_implemented:
  "persistentLoad st (VTuple (VString ''module'' # rest))
     = (Panic ''PersistentLoad module not implemented'', st)
   \<and> runLoad (CallPersistentLoad f (VTuple (VString ''module'' # rest)) k) st
     = (Panic ''PersistentLoad module not implemented'', f, st,
        [(VTuple (VString ''module'' # rest), st,
          Panic ''PersistentLoad module not implemented'', st)])"
  by (simp add: persistentLoad_def)

text \<open>
  The claim as stated in the specification (a module reference resolves to the first
  element of the tuple, with or without provenance fields) fails on the code: the
  resolver panics for a module reference with provenance fields and for one without.
\<close>

theorem module_reference_panics_example:
  "persistentLoad emptyState
      (VTuple [VString ''module'', VOther 0, VString ''net.py'', VString ''class Net'']) 
     = (Panic ''PersistentLoad module not implemented'', emptyState)
   \<and> persistentLoad emptyState (VTuple [VString ''module'', VOther 0, VNil, VNil])
     = (Panic ''PersistentLoad module not implemented'', emptyState)"
  by (simp add: persistentLoad_def)

section \<open>Unexpected persistent ids\<close>

text \<open>
  Claim C10. A value handed to the resolver that is not a tuple, or is the empty tuple,
  fails with \<^verbatim>\<open>PersistentLoad: non-empty tuple espected\<close>; a tuple whose first element
  is not a string fails with \<^verbatim>\<open>PersistentLoad: cannot get typename\<close>; a tuple whose
  first element is a string other than \<^verbatim>\<open>"storage"\<close> and \<^verbatim>\<open>"module"\<close> fails with
  \<^verbatim>\<open>Unexpected saved ID type:\<close> followed by that string. In each case the registry and
  the heap are unchanged and the run of the decoder ends at that call with that error,
  the rest of the graph not being decoded. The typename error differs from every
  unexpected-type error. And when the run of the decoder ends with an error,
  \<^verbatim>\<open>loadLegacyNoTar\<close> returns that error without decoding the storage keys or reading any
  storage.
\<close>

theorem unexpected_persistent_id:
  "((\<forall>tuple. savedId \<noteq> VTuple tuple) \<or> savedId = VTuple [] \<longrightarrow>
      persistentLoad st savedId
        = (Fail (Errorf ''PersistentLoad: non-empty tuple espected''), st)
      \<and> runLoad (CallPersistentLoad f savedId k) st
        = (Fail (Errorf ''PersistentLoad: non-empty tuple espected''), f, st,
           [(savedId, st, Fail (Errorf ''PersistentLoad: non-empty tuple espected''), st)]))
   \<and> ((\<forall>s. first \<noteq> VString s) \<longrightarrow>
      persistentLoad st (VTuple (first # rest))
        = (Fail (Errorf ''PersistentLoad: cannot get typename''), st)
      \<and> runLoad (CallPersistentLoad f (VTuple (first # rest)) k) st
        = (Fail (Errorf ''PersistentLoad: cannot get typename''), f, st,
           [(VTuple (first # rest), st,
             Fail (Errorf ''PersistentLoad: cannot get typename''), st)]))
   \<and> (typename \<noteq> ''storage'' \<and> typename \<noteq> ''module'' \<longrightarrow>
      persistentLoad st (VTuple (VString typename # rest))
        = (Fail (Errorf (''Unexpected saved ID type: '' @ typename)), st)
      \<and> runLoad (CallPersistentLoad f (VTuple (VString typename # rest)) k) st
        = (Fail (Errorf (''Unexpected saved ID type: '' @ typename)), f, st,
           [(VTuple (VString typename # rest), st,
             Fail (Errorf (''Unexpected saved ID type: '' @ typename)), st)]))
   \<and> Errorf ''PersistentLoad: cannot get typename''
        \<noteq> Errorf (''Unexpected saved ID type: '' @ typename)
   \<and> (runLoad (unpicklerLoadHooked env pickleFindClass f0) emptyState = (Fail e, f1, st1, calls)
        \<longrightarrow> loadObjectGraph env f0 = (Fail e, f1, heap st1))"
proof (intro conjI impI)
  assume a: "(\<forall>tuple. savedId \<noteq> VTuple tuple) \<or> savedId = VTuple []"
  then show 1: "persistentLoad st savedId
        = (Fail (Errorf ''PersistentLoad: non-empty tuple espected''), st)"
    by (cases savedId) (auto simp: persistentLoad_def)
  then show "runLoad (CallPersistentLoad f savedId k) st
        = (Fail (Errorf ''PersistentLoad: non-empty tuple espected''), f, st,
           [(savedId, st, Fail (Errorf ''PersistentLoad: non-empty tuple espected''), st)])"
    by simp
next
  assume "\<forall>s. first \<noteq> VString s"
  then have "asString first = None"
    by (metis asString_Some not_Some_eq)
  then show 2: "persistentLoad st (VTuple (first # rest))
        = (Fail (Errorf ''PersistentLoad: cannot get typename''), st)"
    by (simp add: persistentLoad_def)
  then show "runLoad (CallPersistentLoad f (VTuple (first # rest)) k) st
        = (Fail (Errorf ''PersistentLoad: cannot get typename''), f, st,
           [(VTuple (first # rest), st,
             Fail (Errorf ''PersistentLoad: cannot get typename''), st)])"
    by simp
next
  assume "typename \<noteq> ''storage'' \<and> typename \<noteq> ''module''"
  then show 3: "persistentLoad st (VTuple (VString typename # rest))
        = (Fail (Errorf (''Unexpected saved ID type: '' @ typename)), st)"
    by (simp add: persistentLoad_def)
  then show "runLoad (CallPersistentLoad f (VTuple (VString typename # rest)) k) st
        = (Fail (Errorf (''Unexpected saved ID type: '' @ typename)), f, st,
           [(VTuple (VString typename # rest), st,
             Fail (Errorf (''Unexpected saved ID type: '' @ typename)), st)])"
    by simp
next
  show "Errorf ''PersistentLoad: cannot get typename''
        \<noteq> Errorf (''Unexpected saved ID type: '' @ typename)"
    by simp
next
  assume "runLoad (unpicklerLoadHooked env pickleFindClass f0) emptyState = (Fail e, f1, st1, calls)"
  then show "loadObjectGraph env f0 = (Fail e, f1, heap st1)"
    by (simp add: loadObjectGraph_def)
qed

theorem unexpected_persistent_id_witness:
  "persistentLoad oneStorage (VInt 5)
     = (Fail (Errorf ''PersistentLoad: non-empty tuple espected''), oneStorage)
   \<and> persistentLoad oneStorage (VTuple [])
     = (Fail (Errorf ''PersistentLoad: non-empty tuple espected''), oneStorage)
   \<and> persistentLoad oneStorage (VTuple [VInt 1, VString ''0''])
     = (Fail (Errorf ''PersistentLoad: cannot get typename''), oneStorage)
   \<and> persistentLoad oneStorage (VTuple [VString ''tensor'', VString ''0''])
     = (Fail (Errorf ''Unexpected saved ID type: tensor''), oneStorage)
   \<and> loadObjectGraph
        (legacyExample validMagic (VInt 1001) (VTuple [VString ''tensor'', VString ''0''])
           (VList []) [])
        (exampleAt [] 3)
     = (Fail (Errorf ''Unexpected saved ID type: tensor''), exampleAt [] 4, [])"
proof -
  let ?sid = "VTuple [VString ''tensor'', VString ''0'']"
  let ?env = "legacyExample validMagic (VInt 1001) ?sid (VList []) []"
  let ?k = "\<lambda>v. CallPersistentLoad (exampleAt [] 4) ?sid
              (\<lambda>w. Return (Ok (VTuple [v, w])) (exampleAt [] 4))"
  note inst = unexpected_persistent_id [where st = oneStorage and f = exampleFile
      and k = "\<lambda>v. Return (Ok v) exampleFile"]
  have 1: "persistentLoad oneStorage (VInt 5)
     = (Fail (Errorf ''PersistentLoad: non-empty tuple espected''), oneStorage)"
    using inst [where savedId = "VInt 5"] by simp
  have 2: "persistentLoad oneStorage (VTuple [])
     = (Fail (Errorf ''PersistentLoad: non-empty tuple espected''), oneStorage)"
    using inst [where savedId = "VTuple []"] by simp
  have 3: "persistentLoad oneStorage (VTuple [VInt 1, VString ''0''])
     = (Fail (Errorf ''PersistentLoad: cannot get typename''), oneStorage)"
    using inst [where first = "VInt 1" and rest = "[VString ''0'']"] by simp
  have 4: "persistentLoad oneStorage ?sid
     = (Fail (Errorf ''Unexpected saved ID type: tensor''), oneStorage)"
    using inst [where typename = "''tensor''" and rest = "[VString ''0'']"] by simp
  note load = unexpected_persistent_id [where st = emptyState and f = "exampleAt [] 4"
      and k = ?k and typename = "''tensor''" and rest = "[VString ''0'']" and env = ?env
      and ?f0.0 = "exampleAt [] 3"
      and e = "Errorf ''Unexpected saved ID type: tensor''" and ?f1.0 = "exampleAt [] 4"
      and ?st1.0 = emptyState
      and calls = "[(?sid, emptyState, Fail (Errorf ''Unexpected saved ID type: tensor''),
                     emptyState)]"]
  have run: "runLoad (unpicklerLoadHooked ?env pickleFindClass (exampleAt [] 3)) emptyState
      = (Fail (Errorf ''Unexpected saved ID type: tensor''), exampleAt [] 4, emptyState,
         [(?sid, emptyState, Fail (Errorf ''Unexpected saved ID type: tensor''), emptyState)])"
    using load by (simp add: ex_hooked sharedGraph_def)
  have 5: "loadObjectGraph ?env (exampleAt [] 3)
     = (Fail (Errorf ''Unexpected saved ID type: tensor''), exampleAt [] 4, [])"
    using load run by (simp add: emptyState_def)
  from 1 2 3 4 5 show ?thesis by (intro conjI)
qed

end
